theory Spec2Isabelle
  imports Main "HOL-Library.List_Lexorder"
begin

section \<open>Text: the operations of Python's str that the updater uses\<close>

text \<open>
  A Python \<open>str\<close> is a sequence of Unicode code points. The model is the list of
  its code points, each a natural number: \<open>length\<close> is Python's \<open>len\<close>, and the
  order on lists (lexicographic, by code point) is the order \<open>sorted\<close> uses on
  strings. \<open>lit\<close> gives the \<open>str\<close> of a literal of the theory, whose characters
  are the code points below 256.
\<close>

type_synonym str = "nat list"

definition lit :: "string \<Rightarrow> str" where
  "lit s = map of_char s"

definition NL :: nat where
  "NL = 10"

text \<open>
  \<open>c.isspace()\<close> for one character: the table of Python 3, on all of Unicode
  (U+0009 to U+000D, U+001C to U+0020, U+0085, U+00A0, U+1680, U+2000 to U+200A,
  U+2028, U+2029, U+202F, U+205F, U+3000).
\<close>

definition isspace :: "nat \<Rightarrow> bool" where
  "isspace n =
     (if n < 256 then (9 \<le> n \<and> n \<le> 13) \<or> (28 \<le> n \<and> n \<le> 32) \<or> n = 133 \<or> n = 160
      else n = 5760 \<or> (8192 \<le> n \<and> n \<le> 8202) \<or> n = 8232 \<or> n = 8233 \<or> n = 8239
           \<or> n = 8287 \<or> n = 12288)"

text \<open>
  The case tables of Unicode are written out for the code points below 256 (Basic Latin
  and Latin-1), for U+0130 (LATIN CAPITAL LETTER I WITH DOT ABOVE, code point 304) and
  for U+0307 (COMBINING DOT ABOVE, code point 775). On every other code point what
  \<open>str.isalpha\<close> and \<open>str.lower\<close> give is left unspecified: nothing is proved
  about it, so that what is proved holds whatever the tables of the Python at hand say
  there.
\<close>

definition tabled :: "nat \<Rightarrow> bool" where
  "tabled n = (n < 256 \<or> n = 304 \<or> n = 775)"

text \<open>The upper-case letters below 256; the lower-case form of each is 32 further.\<close>

definition isupper :: "nat \<Rightarrow> bool" where
  "isupper n = ((65 \<le> n \<and> n \<le> 90) \<or> (192 \<le> n \<and> n \<le> 214) \<or> (216 \<le> n \<and> n \<le> 222))"

definition isalpha_char :: "nat \<Rightarrow> bool" where
  "isalpha_char n =
     (if tabled n then
        (65 \<le> n \<and> n \<le> 90) \<or> (97 \<le> n \<and> n \<le> 122) \<or> n = 170 \<or> n = 181 \<or> n = 186
        \<or> (192 \<le> n \<and> n \<le> 214) \<or> (216 \<le> n \<and> n \<le> 246) \<or> (248 \<le> n \<and> n \<le> 255)
        \<or> n = 304
      else undefined n)"

text \<open>
  The lower-case form of one tabled character: one code point, except for U+0130, which
  becomes the two code points U+0069 U+0307.
\<close>

definition lower_char :: "nat \<Rightarrow> str" where
  "lower_char n = (if isupper n then [n + 32] else if n = 304 then [105, 775] else [n])"

text \<open>
  \<open>s.lower()\<close>. On a string of tabled characters the result is made character by
  character; on any other string it is unspecified (and not made character by
  character: a final sigma is lowered according to what precedes it).
\<close>

definition lower :: "str \<Rightarrow> str" where
  "lower s = (if list_all tabled s then concat (map lower_char s) else undefined s)"

text \<open>\<open>s.isalpha()\<close>: every character is a letter, and there is at least one.\<close>

definition isalpha :: "str \<Rightarrow> bool" where
  "isalpha s = (s \<noteq> [] \<and> list_all isalpha_char s)"

text \<open>\<open>s.strip()\<close>: leading and trailing whitespace removed.\<close>

definition strip :: "str \<Rightarrow> str" where
  "strip s = rev (dropWhile isspace (rev (dropWhile isspace s)))"

text \<open>
  \<open>s.split('\n')\<close>: the pieces between newlines; always at least one piece, so that
  the empty text gives the one-element list \<open>['']\<close>.
\<close>

fun split_nl :: "str \<Rightarrow> str list" where
  "split_nl [] = [[]]"
| "split_nl (c # cs) =
     (if c = NL then [] # split_nl cs
      else (case split_nl cs of
              [] \<Rightarrow> [[c]]
            | w # ws \<Rightarrow> (c # w) # ws))"

text \<open>\<open>'\n'.join(ws)\<close>\<close>

fun join_nl :: "str list \<Rightarrow> str" where
  "join_nl [] = []"
| "join_nl [w] = w"
| "join_nl (w # v # ws) = w @ NL # join_nl (v # ws)"

text \<open>\<open>sorted(words)\<close> on a set of strings.\<close>

definition sorted_words :: "str set \<Rightarrow> str list" where
  "sorted_words words = sorted_list_of_set words"

text \<open>\<open>set(text.strip().split('\n'))\<close>, the way every data file is read.\<close>

definition read_words :: "str \<Rightarrow> str set" where
  "read_words txt = set (split_nl (strip txt))"

section \<open>The world the updater runs in\<close>

subsection \<open>Parsed JSON, as the \<open>json\<close> module returns it\<close>

text \<open>
  An object is a \<open>dict\<close>, kept as its items in insertion order (the keys of a parsed
  object are distinct); an array is a \<open>list\<close>. The value of a number is never looked
  at by the updater.
\<close>

datatype json =
    JNull
  | JBool bool
  | JNum int
  | JStr str
  | JArr "json list"
  | JObj "(str \<times> json) list"

datatype exn =
    RequestException
  | JSONDecodeError
  | TypeError
  | AttributeError
  | KeyError
  | FileNotFoundError
  | FileExistsError
  | IsADirectoryError
  | NotADirectoryError

fun starts_with :: "str \<Rightarrow> str \<Rightarrow> bool" where
  "starts_with [] s = True"
| "starts_with (k # ks) [] = False"
| "starts_with (k # ks) (c # cs) = (k = c \<and> starts_with ks cs)"

fun substring :: "str \<Rightarrow> str \<Rightarrow> bool" where
  "substring k [] = (k = [])"
| "substring k (c # cs) = (starts_with k (c # cs) \<or> substring k cs)"

text \<open>\<open>key in data\<close>\<close>

fun py_contains :: "json \<Rightarrow> str \<Rightarrow> exn + bool" where
  "py_contains (JObj items) key = Inr (key \<in> set (map fst items))"
| "py_contains (JArr xs) key = Inr (JStr key \<in> set xs)"
| "py_contains (JStr s) key = Inr (substring key s)"
| "py_contains _ key = Inl TypeError"

text \<open>\<open>data[key]\<close> with a string key\<close>

fun py_getitem :: "json \<Rightarrow> str \<Rightarrow> exn + json" where
  "py_getitem (JObj items) key =
     (case map_of items key of None \<Rightarrow> Inl KeyError | Some v \<Rightarrow> Inr v)"
| "py_getitem _ key = Inl TypeError"

text \<open>\<open>iter(v)\<close>: the elements of a list, the keys of a dict, the characters of a string.\<close>

fun py_iter :: "json \<Rightarrow> exn + json list" where
  "py_iter (JArr xs) = Inr xs"
| "py_iter (JObj items) = Inr (map (\<lambda>kv. JStr (fst kv)) items)"
| "py_iter (JStr s) = Inr (map (\<lambda>c. JStr [c]) s)"
| "py_iter _ = Inl TypeError"

text \<open>\<open>len(w)\<close>\<close>

fun py_len :: "json \<Rightarrow> exn + nat" where
  "py_len (JStr s) = Inr (length s)"
| "py_len (JArr xs) = Inr (length xs)"
| "py_len (JObj items) = Inr (length items)"
| "py_len _ = Inl TypeError"

text \<open>\<open>w.lower()\<close>: only a string has the method.\<close>

fun py_lower :: "json \<Rightarrow> exn + str" where
  "py_lower (JStr s) = Inr (lower s)"
| "py_lower _ = Inl AttributeError"

subsection \<open>The network\<close>

text \<open>
  A response that \<open>raise_for_status\<close> accepted: its \<open>text\<close>, and what \<open>.json()\<close>
  gives (\<open>None\<close> when the body does not parse and \<open>.json()\<close> raises).
\<close>

record response =
  resp_text :: str
  resp_json :: "json option"

text \<open>
  One attempt of \<open>requests.get\<close> followed by \<open>raise_for_status\<close> either gives a
  response or raises a \<open>requests.RequestException\<close> (connection error, timeout, HTTP
  error status). The network is a function of the URL and of the number of the attempt
  within one call of \<open>fetch_url\<close>.
\<close>

datatype outcome = Ok response | Failed

type_synonym network = "string \<Rightarrow> nat \<Rightarrow> outcome"

definition WORDLE_ANSWERS_URL :: string where
  "WORDLE_ANSWERS_URL = ''https://www.nytimes.com/games-assets/v2/wordle.json''"

definition FALLBACK_SCRABBLE_URL :: string where
  "FALLBACK_SCRABBLE_URL =
     ''https://raw.githubusercontent.com/dwyl/english-words/master/words_alpha.txt''"

subsection \<open>The file system\<close>

text \<open>
  A path is its list of components below the working directory, which is the empty
  path and always a directory. A path names a regular file with its text, a directory,
  or nothing.
\<close>

type_synonym path = "string list"

datatype node = File str | Dir

type_synonym filesystem = "path \<Rightarrow> node option"

definition DATA_DIR :: path where
  "DATA_DIR = [''Data'']"

definition WWWROOT_DATA_DIR :: path where
  "WWWROOT_DATA_DIR = [''wwwroot'', ''data'']"

definition BACKUP_DIR :: path where
  "BACKUP_DIR = [''Data'', ''backups'']"

definition lookup :: "filesystem \<Rightarrow> path \<Rightarrow> node option" where
  "lookup f p = (if p = [] then Some Dir else f p)"

text \<open>\<open>Path.exists()\<close>\<close>

definition path_exists :: "filesystem \<Rightarrow> path \<Rightarrow> bool" where
  "path_exists f p = (lookup f p \<noteq> None)"

text \<open>\<open>Path.is_dir()\<close>\<close>

definition is_dir :: "filesystem \<Rightarrow> path \<Rightarrow> bool" where
  "is_dir f p = (lookup f p = Some Dir)"

text \<open>\<open>Path.read_text(encoding='utf-8')\<close>\<close>

definition read_text :: "filesystem \<Rightarrow> path \<Rightarrow> exn + str" where
  "read_text f p =
     (case lookup f p of
        None \<Rightarrow> Inl FileNotFoundError
      | Some Dir \<Rightarrow> Inl IsADirectoryError
      | Some (File txt) \<Rightarrow> Inr txt)"

text \<open>
  \<open>Path.write_text(txt, encoding='utf-8')\<close>: the file is created or replaced; the
  directory that holds it has to be there.
\<close>

definition write_text :: "filesystem \<Rightarrow> path \<Rightarrow> str \<Rightarrow> exn + filesystem" where
  "write_text f p txt =
     (case lookup f (butlast p) of
        None \<Rightarrow> Inl FileNotFoundError
      | Some (File _) \<Rightarrow> Inl NotADirectoryError
      | Some Dir \<Rightarrow>
          (if is_dir f p then Inl IsADirectoryError else Inr (f(p \<mapsto> File txt))))"

text \<open>\<open>os.mkdir\<close>: one directory, whose parent has to be there.\<close>

definition os_mkdir :: "filesystem \<Rightarrow> path \<Rightarrow> exn + filesystem" where
  "os_mkdir f p =
     (case lookup f (butlast p) of
        None \<Rightarrow> Inl FileNotFoundError
      | Some (File _) \<Rightarrow> Inl NotADirectoryError
      | Some Dir \<Rightarrow> (if path_exists f p then Inl FileExistsError else Inr (f(p \<mapsto> Dir))))"

text \<open>
  \<open>Path.mkdir(parents=True, exist_ok=True)\<close>, as pathlib writes it: try
  \<open>os.mkdir\<close>; on \<open>FileNotFoundError\<close> make the parent the same way and try once
  more; any other \<open>OSError\<close> is swallowed when the path is a directory already.
\<close>

function mkdir :: "filesystem \<Rightarrow> path \<Rightarrow> exn + filesystem" where
  "mkdir f p =
     (case os_mkdir f p of
        Inr f' \<Rightarrow> Inr f'
      | Inl e \<Rightarrow>
          (if e = FileNotFoundError then
             (if p = [] then Inl e
              else (case mkdir f (butlast p) of
                      Inl e' \<Rightarrow> Inl e'
                    | Inr f' \<Rightarrow>
                        (case os_mkdir f' p of
                           Inr f'' \<Rightarrow> Inr f''
                         | Inl e' \<Rightarrow>
                             (if e' \<noteq> FileNotFoundError \<and> is_dir f' p then Inr f'
                              else Inl e'))))
           else if is_dir f p then Inr f
           else Inl e))"
  by pat_completeness auto
termination
  by (relation "measure (\<lambda>(f, p). length p)") auto

declare mkdir.simps [simp del]

text \<open>
  \<open>Path.stem\<close>: the name without its last suffix; a name whose only dot is its first
  or its last character has no suffix.
\<close>

definition stem :: "string \<Rightarrow> string" where
  "stem name =
     (if CHR ''.'' \<notin> set name then name
      else (let i = length name - 1 - length (takeWhile (\<lambda>c. c \<noteq> CHR ''.'') (rev name))
            in if 0 < i \<and> i < length name - 1 then take i name else name))"


section \<open>The updater\<close>

text \<open>
  The state threaded through every method: the three fields of \<open>WordListUpdater\<close>
  (\<open>verbose\<close>, \<open>dry_run\<close>, \<open>changes_made\<close>), the file system, and what the
  process has done so far that is visible outside it, oldest first: every line printed
  by \<open>log\<close> (recorded by its level; the time stamp and the wording of a line are not
  modelled), every HTTP request, every \<open>time.sleep\<close> with its number of seconds, and
  the stack trace printed by \<open>traceback.print_exc\<close>.
\<close>

datatype level = INFO | DEBUG | WARNING | ERROR | SUCCESS

datatype event = Log level | Request string | Sleep nat | Traceback

record state =
  verbose :: bool
  dry_run :: bool
  changes_made :: bool
  fs :: filesystem
  out :: "event list"

definition emit :: "event \<Rightarrow> state \<Rightarrow> state" where
  "emit e st = st\<lparr>out := out st @ [e]\<rparr>"

definition log :: "level \<Rightarrow> state \<Rightarrow> state" where
  "log lvl st = emit (Log lvl) st"

definition verbose_log :: "state \<Rightarrow> state" where
  "verbose_log st = (if verbose st then log DEBUG st else st)"

subsection \<open>\<open>fetch_url\<close>\<close>

text \<open>
  The body of \<open>for attempt in range(3)\<close>, over the attempts still to make. A loop
  that ran out of attempts would fall off the end of the method and return \<open>None\<close>.
\<close>

fun fetch_attempts ::
  "network \<Rightarrow> string \<Rightarrow> nat list \<Rightarrow> state \<Rightarrow> (exn + response option) \<times> state" where
  "fetch_attempts net url [] st = (Inr None, st)"
| "fetch_attempts net url (attempt # rest) st =
     (let st1 = emit (Request url) (verbose_log st)
      in case net url attempt of
           Ok r \<Rightarrow> (Inr (Some r), st1)
         | Failed \<Rightarrow>
             (let st2 = log WARNING st1
              in if attempt < 2
                 then fetch_attempts net url rest (emit (Sleep (2 ^ attempt)) st2)
                 else (Inl RequestException, st2)))"

definition fetch_url :: "network \<Rightarrow> string \<Rightarrow> state \<Rightarrow> (exn + response option) \<times> state" where
  "fetch_url net url st = fetch_attempts net url [0..<3] st"

subsection \<open>\<open>fetch_past_wordle_answers\<close>\<close>

text \<open>
  \<open>past_answers.update(w.lower() for w in data['solutions'] if len(w) == 5)\<close>: the
  entries are taken one by one, so an entry on which \<open>len\<close> or \<open>lower\<close> raises
  ends the update with the earlier entries already in the set.
\<close>

fun update_solutions :: "str set \<Rightarrow> json list \<Rightarrow> exn option \<times> str set" where
  "update_solutions acc [] = (None, acc)"
| "update_solutions acc (w # ws) =
     (case py_len w of
        Inl e \<Rightarrow> (Some e, acc)
      | Inr n \<Rightarrow>
          (if n = 5 then
             (case py_lower w of
                Inl e \<Rightarrow> (Some e, acc)
              | Inr s \<Rightarrow> update_solutions (insert s acc) ws)
           else update_solutions acc ws))"

text \<open>
  Method 1, the \<open>try\<close> block on the JSON endpoint: what \<open>past_answers\<close> holds after
  it. Every exception inside it is caught and logged as a warning.
\<close>

definition json_endpoint :: "network \<Rightarrow> state \<Rightarrow> str set \<times> state" where
  "json_endpoint net st =
     (case fetch_url net WORDLE_ANSWERS_URL st of
        (Inl e, st1) \<Rightarrow> ({}, log WARNING st1)
      | (Inr None, st1) \<Rightarrow> ({}, log WARNING st1)
      | (Inr (Some r), st1) \<Rightarrow>
          (case resp_json r of
             None \<Rightarrow> ({}, log WARNING st1)
           | Some data \<Rightarrow>
               (case py_contains data (lit ''solutions'') of
                  Inl e \<Rightarrow> ({}, log WARNING st1)
                | Inr False \<Rightarrow> ({}, st1)
                | Inr True \<Rightarrow>
                    (case py_getitem data (lit ''solutions'') of
                       Inl e \<Rightarrow> ({}, log WARNING st1)
                     | Inr v \<Rightarrow>
                         (case py_iter v of
                            Inl e \<Rightarrow> ({}, log WARNING st1)
                          | Inr entries \<Rightarrow>
                              (case update_solutions {} entries of
                                 (Some e, past) \<Rightarrow> (past, log WARNING st1)
                               | (None, past) \<Rightarrow> (past, log INFO st1)))))))"

text \<open>The manually kept supplement \<open>known_recent\<close>, empty in the source.\<close>

definition known_recent :: "str set" where
  "known_recent = {}"

definition fetch_past_wordle_answers :: "network \<Rightarrow> state \<Rightarrow> (exn + str set) \<times> state" where
  "fetch_past_wordle_answers net st =
     (case json_endpoint net (log INFO st) of
        (past_answers, st1) \<Rightarrow>
          (let st2 = (if past_answers = {} then log INFO st1 else st1)
           in if past_answers = {} then
                (let st3 = log WARNING st2;
                     existing_file = DATA_DIR @ [''past-answers.txt'']
                 in if path_exists (fs st3) existing_file then
                      (case read_text (fs st3) existing_file of
                         Inl e \<Rightarrow> (Inl e, st3)
                       | Inr txt \<Rightarrow> (Inr (read_words txt \<union> known_recent), log INFO st3))
                    else (Inr past_answers, st3))
              else (Inr past_answers, st2)))"

subsection \<open>\<open>fetch_comprehensive_wordlist\<close>\<close>

text \<open>The set comprehension over the lines of the remote dictionary.\<close>

definition scrabble_words :: "str \<Rightarrow> str set" where
  "scrabble_words txt =
     set (map lower (filter (\<lambda>word. length word = 5 \<and> isalpha word) (split_nl txt)))"

text \<open>The \<open>try\<close> block on the remote dictionary, from the words loaded so far.\<close>

definition add_scrabble :: "network \<Rightarrow> str set \<Rightarrow> state \<Rightarrow> str set \<times> state" where
  "add_scrabble net all_words st =
     (case fetch_url net FALLBACK_SCRABBLE_URL st of
        (Inl e, st1) \<Rightarrow> (all_words, log WARNING st1)
      | (Inr None, st1) \<Rightarrow> (all_words, log WARNING st1)
      | (Inr (Some r), st1) \<Rightarrow>
          (let original_count = card all_words;
               all_words' = all_words \<union> scrabble_words (resp_text r);
               new_count = card all_words'
           in (all_words', if new_count > original_count then log INFO st1 else st1)))"

definition fetch_comprehensive_wordlist ::
  "network \<Rightarrow> state \<Rightarrow> (exn + str set) \<times> state" where
  "fetch_comprehensive_wordlist net st =
     (let st0 = log INFO st;
          existing_file = DATA_DIR @ [''words.txt'']
      in if path_exists (fs st0) existing_file then
           (case read_text (fs st0) existing_file of
              Inl e \<Rightarrow> (Inl e, st0)
            | Inr txt \<Rightarrow>
                (case add_scrabble net (read_words txt) (log INFO st0) of
                   (all_words, st1) \<Rightarrow> (Inr all_words, st1)))
         else (case add_scrabble net {} st0 of
                 (all_words, st1) \<Rightarrow> (Inr all_words, st1)))"

subsection \<open>\<open>determine_common_words\<close>\<close>

definition determine_common_words ::
  "str set \<Rightarrow> str set \<Rightarrow> state \<Rightarrow> (exn + str set) \<times> state" where
  "determine_common_words all_words past_answers st =
     (let st0 = log INFO st;
          existing_file = DATA_DIR @ [''common-words.txt'']
      in if path_exists (fs st0) existing_file then
           (case read_text (fs st0) existing_file of
              Inl e \<Rightarrow> (Inl e, st0)
            | Inr txt \<Rightarrow>
                (Inr ((past_answers \<union> read_words txt) \<inter> all_words), log INFO st0))
         else (Inr (past_answers \<inter> all_words), log INFO st0))"

subsection \<open>\<open>backup_files\<close>\<close>

definition FILENAMES :: "string list" where
  "FILENAMES = [''words.txt'', ''common-words.txt'', ''past-answers.txt'']"

text \<open>
  The loop over the three file names; \<open>stamp\<close> is the time stamp
  \<open>datetime.now().strftime("%Y%m%d_%H%M%S")\<close> of the run.
\<close>

fun backup_each :: "string \<Rightarrow> string list \<Rightarrow> state \<Rightarrow> (exn + unit) \<times> state" where
  "backup_each stamp [] st = (Inr (), st)"
| "backup_each stamp (filename # rest) st =
     (let source = DATA_DIR @ [filename]
      in if path_exists (fs st) source then
           (let backup = BACKUP_DIR @ [stem filename @ ''_'' @ stamp @ ''.txt'']
            in case read_text (fs st) source of
                 Inl e \<Rightarrow> (Inl e, st)
               | Inr txt \<Rightarrow>
                   (case write_text (fs st) backup txt of
                      Inl e \<Rightarrow> (Inl e, st)
                    | Inr f \<Rightarrow> backup_each stamp rest (verbose_log (st\<lparr>fs := f\<rparr>))))
         else backup_each stamp rest st)"

definition backup_files :: "string \<Rightarrow> state \<Rightarrow> (exn + unit) \<times> state" where
  "backup_files stamp st =
     (if dry_run st then (Inr (), log INFO st)
      else (case mkdir (fs st) BACKUP_DIR of
              Inl e \<Rightarrow> (Inl e, st)
            | Inr f \<Rightarrow> backup_each stamp FILENAMES (st\<lparr>fs := f\<rparr>)))"

subsection \<open>\<open>write_word_file\<close>\<close>

text \<open>\<open>'\n'.join(sorted(words))\<close>, the text a word set is written as.\<close>

definition file_content :: "str set \<Rightarrow> str" where
  "file_content words = join_nl (sorted_words words)"

definition write_word_file ::
  "path \<Rightarrow> str set \<Rightarrow> string \<Rightarrow> state \<Rightarrow> (exn + unit) \<times> state" where
  "write_word_file filepath words description st =
     (let content = file_content words
      in case (if path_exists (fs st) filepath then read_text (fs st) filepath else Inr [])
         of Inl e \<Rightarrow> (Inl e, st)
          | Inr existing_content \<Rightarrow>
              (if content \<noteq> strip existing_content then
                 (let st1 = st\<lparr>changes_made := True\<rparr>
                  in if dry_run st1 then (Inr (), log INFO (log INFO (log INFO st1)))
                     else (case write_text (fs st1) filepath content of
                             Inl e \<Rightarrow> (Inl e, st1)
                           | Inr f \<Rightarrow> (Inr (), log INFO (st1\<lparr>fs := f\<rparr>))))
               else (Inr (), log INFO st)))"

subsection \<open>\<open>sync_to_wwwroot\<close>\<close>

fun sync_each :: "string list \<Rightarrow> state \<Rightarrow> (exn + unit) \<times> state" where
  "sync_each [] st = (Inr (), st)"
| "sync_each (filename # rest) st =
     (let source = DATA_DIR @ [filename];
          dest = WWWROOT_DATA_DIR @ [filename]
      in if path_exists (fs st) source then
           (case read_text (fs st) source of
              Inl e \<Rightarrow> (Inl e, st)
            | Inr txt \<Rightarrow>
                (case write_text (fs st) dest txt of
                   Inl e \<Rightarrow> (Inl e, st)
                 | Inr f \<Rightarrow> sync_each rest (verbose_log (st\<lparr>fs := f\<rparr>))))
         else sync_each rest st)"

definition sync_to_wwwroot :: "state \<Rightarrow> (exn + unit) \<times> state" where
  "sync_to_wwwroot st =
     (if dry_run st then (Inr (), log INFO st)
      else (case mkdir (fs st) WWWROOT_DATA_DIR of
              Inl e \<Rightarrow> (Inl e, st)
            | Inr f \<Rightarrow> sync_each FILENAMES (st\<lparr>fs := f\<rparr>)))"

subsection \<open>\<open>run\<close> and \<open>main\<close>\<close>

text \<open>
  The body of the \<open>try\<close> in \<open>run\<close>: \<open>Inl\<close> is the exception that leaves it,
  \<open>Inr\<close> the value of its \<open>return\<close>.
\<close>

definition run_body :: "network \<Rightarrow> string \<Rightarrow> state \<Rightarrow> (exn + nat) \<times> state" where
  "run_body net stamp st =
     (case backup_files stamp st of
        (Inl e, st1) \<Rightarrow> (Inl e, st1)
      | (Inr _, st1) \<Rightarrow>
     (case fetch_past_wordle_answers net st1 of
        (Inl e, st2) \<Rightarrow> (Inl e, st2)
      | (Inr past_answers, st2) \<Rightarrow>
     (case fetch_comprehensive_wordlist net st2 of
        (Inl e, st3) \<Rightarrow> (Inl e, st3)
      | (Inr all_words, st3) \<Rightarrow>
     (case determine_common_words all_words past_answers st3 of
        (Inl e, st4) \<Rightarrow> (Inl e, st4)
      | (Inr common_words, st4) \<Rightarrow>
     (case mkdir (fs st4) DATA_DIR of
        Inl e \<Rightarrow> (Inl e, st4)
      | Inr f \<Rightarrow>
     (case write_word_file (DATA_DIR @ [''past-answers.txt'']) past_answers
             ''past Wordle answers'' (st4\<lparr>fs := f\<rparr>) of
        (Inl e, st5) \<Rightarrow> (Inl e, st5)
      | (Inr _, st5) \<Rightarrow>
     (case write_word_file (DATA_DIR @ [''common-words.txt'']) common_words
             ''common words'' st5 of
        (Inl e, st6) \<Rightarrow> (Inl e, st6)
      | (Inr _, st6) \<Rightarrow>
     (case write_word_file (DATA_DIR @ [''words.txt'']) all_words
             ''total words'' st6 of
        (Inl e, st7) \<Rightarrow> (Inl e, st7)
      | (Inr _, st7) \<Rightarrow>
     (case sync_to_wwwroot st7 of
        (Inl e, st8) \<Rightarrow> (Inl e, st8)
      | (Inr _, st8) \<Rightarrow>
          (let st9 = log INFO st8
           in if changes_made st9 then (Inr 0, log SUCCESS st9)
              else (Inr 0, log INFO st9)))))))))))"

text \<open>\<open>run\<close>: the value returned, which \<open>main\<close> hands to \<open>sys.exit\<close>.\<close>

definition run :: "network \<Rightarrow> string \<Rightarrow> state \<Rightarrow> nat \<times> state" where
  "run net stamp st =
     (case run_body net stamp (log INFO st) of
        (Inr code, st') \<Rightarrow> (code, st')
      | (Inl e, st') \<Rightarrow> (1, emit Traceback (log ERROR st')))"

text \<open>
  \<open>main\<close>: the exit status of the process and the state it leaves, from the two
  command-line flags, the network, the time stamp and the file system it starts in.
\<close>

definition main ::
  "bool \<Rightarrow> bool \<Rightarrow> network \<Rightarrow> string \<Rightarrow> filesystem \<Rightarrow> nat \<times> state" where
  "main dry verb net stamp f =
     run net stamp \<lparr>verbose = verb, dry_run = dry, changes_made = False, fs = f, out = []\<rparr>"


section \<open>Notions used in the statements and proofs\<close>

text \<open>
  None of what follows is code of the updater: these are names for the three data
  files, and descriptions of what the methods compute that the lemmas below prove
  equal to the methods themselves.
\<close>

definition PAST_ANSWERS_FILE :: path where
  "PAST_ANSWERS_FILE = DATA_DIR @ [''past-answers.txt'']"

definition COMMON_WORDS_FILE :: path where
  "COMMON_WORDS_FILE = DATA_DIR @ [''common-words.txt'']"

definition WORDS_FILE :: path where
  "WORDS_FILE = DATA_DIR @ [''words.txt'']"

definition data_files :: "path list" where
  "data_files = [PAST_ANSWERS_FILE, COMMON_WORDS_FILE, WORDS_FILE]"

text \<open>The state with more events in its output.\<close>

definition add_out :: "event list \<Rightarrow> state \<Rightarrow> state" where
  "add_out evs st = st\<lparr>out := out st @ evs\<rparr>"

text \<open>Two states that differ at most in their output.\<close>

definition same_fields :: "state \<Rightarrow> state \<Rightarrow> bool" where
  "same_fields st st' =
     (fs st' = fs st \<and> dry_run st' = dry_run st \<and> verbose st' = verbose st
      \<and> changes_made st' = changes_made st)"

text \<open>What \<open>fetch_url\<close> returns, read off the network.\<close>

definition fetch_result :: "network \<Rightarrow> string \<Rightarrow> exn + response option" where
  "fetch_result net url =
     (case net url 0 of
        Ok r \<Rightarrow> Inr (Some r)
      | Failed \<Rightarrow>
          (case net url 1 of
             Ok r \<Rightarrow> Inr (Some r)
           | Failed \<Rightarrow>
               (case net url 2 of
                  Ok r \<Rightarrow> Inr (Some r)
                | Failed \<Rightarrow> Inl RequestException)))"

text \<open>The words that method 1 gets from the JSON endpoint.\<close>

definition remote_answers :: "network \<Rightarrow> str set" where
  "remote_answers net =
     (case fetch_result net WORDLE_ANSWERS_URL of
        Inl e \<Rightarrow> {}
      | Inr None \<Rightarrow> {}
      | Inr (Some r) \<Rightarrow>
          (case resp_json r of
             None \<Rightarrow> {}
           | Some data \<Rightarrow>
               (case py_contains data (lit ''solutions'') of
                  Inl e \<Rightarrow> {}
                | Inr False \<Rightarrow> {}
                | Inr True \<Rightarrow>
                    (case py_getitem data (lit ''solutions'') of
                       Inl e \<Rightarrow> {}
                     | Inr v \<Rightarrow>
                         (case py_iter v of
                            Inl e \<Rightarrow> {}
                          | Inr entries \<Rightarrow> snd (update_solutions {} entries))))))"

text \<open>The words that the remote dictionary adds.\<close>

definition remote_scrabble :: "network \<Rightarrow> str set" where
  "remote_scrabble net =
     (case fetch_result net FALLBACK_SCRABBLE_URL of
        Inl e \<Rightarrow> {}
      | Inr None \<Rightarrow> {}
      | Inr (Some r) \<Rightarrow> scrabble_words (resp_text r))"

text \<open>The word set that a data file is read as; nothing when the file is not there.\<close>

definition words_at :: "filesystem \<Rightarrow> path \<Rightarrow> exn + str set option" where
  "words_at f p =
     (if path_exists f p then
        (case read_text f p of Inl e \<Rightarrow> Inl e | Inr txt \<Rightarrow> Inr (Some (read_words txt)))
      else Inr None)"

definition past_of :: "network \<Rightarrow> filesystem \<Rightarrow> exn + str set" where
  "past_of net f =
     (if remote_answers net \<noteq> {} then Inr (remote_answers net)
      else (case words_at f PAST_ANSWERS_FILE of
              Inl e \<Rightarrow> Inl e
            | Inr None \<Rightarrow> Inr {}
            | Inr (Some ws) \<Rightarrow> Inr ws))"

definition all_of :: "network \<Rightarrow> filesystem \<Rightarrow> exn + str set" where
  "all_of net f =
     (case words_at f WORDS_FILE of
        Inl e \<Rightarrow> Inl e
      | Inr None \<Rightarrow> Inr (remote_scrabble net)
      | Inr (Some ws) \<Rightarrow> Inr (ws \<union> remote_scrabble net))"

definition common_of :: "str set \<Rightarrow> str set \<Rightarrow> filesystem \<Rightarrow> exn + str set" where
  "common_of all_words past_answers f =
     (case words_at f COMMON_WORDS_FILE of
        Inl e \<Rightarrow> Inl e
      | Inr None \<Rightarrow> Inr (past_answers \<inter> all_words)
      | Inr (Some ws) \<Rightarrow> Inr ((past_answers \<union> ws) \<inter> all_words))"

text \<open>
  The text that \<open>write_word_file\<close> compares with: the text of the file, or the empty
  text when the file is not there.
\<close>

definition current_text :: "filesystem \<Rightarrow> path \<Rightarrow> exn + str" where
  "current_text f p = (if path_exists f p then read_text f p else Inr [])"

text \<open>
  A data file holds a word set: its text, with surrounding whitespace removed or as it
  is, is the text the set is written as; a file that is not there holds the sets whose
  text is empty.
\<close>

definition holds_words :: "filesystem \<Rightarrow> path \<Rightarrow> str set \<Rightarrow> bool" where
  "holds_words f p words =
     (case lookup f p of
        None \<Rightarrow> file_content words = []
      | Some Dir \<Rightarrow> False
      | Some (File txt) \<Rightarrow> txt = file_content words \<or> strip txt = file_content words)"





text \<open>
  The body of \<open>run\<close> in three parts, to reason about one part at a time: after the
  backup come the three resolvers (\<open>resolve\<close>, with \<open>resolved\<close> for what they
  return), then \<open>DATA_DIR.mkdir\<close>, then the three writes, the sync and the
  \<open>return\<close> (\<open>write_all\<close>). \<open>run_body\<close> is proved equal to their composition.
\<close>

definition resolved ::
  "network \<Rightarrow> filesystem \<Rightarrow> exn + (str set \<times> str set \<times> str set)" where
  "resolved net f =
     (case past_of net f of
        Inl e \<Rightarrow> Inl e
      | Inr past_answers \<Rightarrow>
          (case all_of net f of
             Inl e \<Rightarrow> Inl e
           | Inr all_words \<Rightarrow>
               (case common_of all_words past_answers f of
                  Inl e \<Rightarrow> Inl e
                | Inr common_words \<Rightarrow> Inr (past_answers, all_words, common_words))))"

definition resolve ::
  "network \<Rightarrow> state \<Rightarrow> (exn + (str set \<times> str set \<times> str set)) \<times> state" where
  "resolve net st =
     (case fetch_past_wordle_answers net st of
        (Inl e, st2) \<Rightarrow> (Inl e, st2)
      | (Inr past_answers, st2) \<Rightarrow>
     (case fetch_comprehensive_wordlist net st2 of
        (Inl e, st3) \<Rightarrow> (Inl e, st3)
      | (Inr all_words, st3) \<Rightarrow>
     (case determine_common_words all_words past_answers st3 of
        (Inl e, st4) \<Rightarrow> (Inl e, st4)
      | (Inr common_words, st4) \<Rightarrow> (Inr (past_answers, all_words, common_words), st4))))"

definition write_all ::
  "str set \<Rightarrow> str set \<Rightarrow> str set \<Rightarrow> state \<Rightarrow> (exn + nat) \<times> state" where
  "write_all past_answers all_words common_words st =
     (case write_word_file PAST_ANSWERS_FILE past_answers ''past Wordle answers'' st of
        (Inl e, st5) \<Rightarrow> (Inl e, st5)
      | (Inr _, st5) \<Rightarrow>
     (case write_word_file COMMON_WORDS_FILE common_words ''common words'' st5 of
        (Inl e, st6) \<Rightarrow> (Inl e, st6)
      | (Inr _, st6) \<Rightarrow>
     (case write_word_file WORDS_FILE all_words ''total words'' st6 of
        (Inl e, st7) \<Rightarrow> (Inl e, st7)
      | (Inr _, st7) \<Rightarrow>
     (case sync_to_wwwroot st7 of
        (Inl e, st8) \<Rightarrow> (Inl e, st8)
      | (Inr _, st8) \<Rightarrow>
          (let st9 = log INFO st8
           in if changes_made st9 then (Inr 0, log SUCCESS st9)
              else (Inr 0, log INFO st9))))))"

text \<open>
  The change test of \<open>write_word_file\<close> finds nothing to write: the file cannot be
  read, or its stripped text is the text of the word set.
\<close>

definition nothing_to_write :: "filesystem \<Rightarrow> path \<Rightarrow> str set \<Rightarrow> bool" where
  "nothing_to_write f p words =
     (case current_text f p of
        Inl e \<Rightarrow> True
      | Inr t \<Rightarrow> strip t = file_content words)"

text \<open>
  What a successful \<open>write_word_file\<close> outside dry-run mode has done to the file at
  \<open>p\<close>, from the file system \<open>f\<close> before to \<open>f'\<close> after: left it alone when the
  stripped text was the text of the word set, written that text otherwise.
\<close>

definition settled :: "filesystem \<Rightarrow> filesystem \<Rightarrow> path \<Rightarrow> str set \<Rightarrow> bool" where
  "settled f f' p words =
     (\<exists>t. current_text f p = Inr t
          \<and> f' p = (if file_content words = strip t then f p
                    else Some (File (file_content words))))"

section \<open>Example inputs\<close>

text \<open>The network on which every attempt fails.\<close>

definition offline :: network where
  "offline url attempt = Failed"

text \<open>The state that \<open>main\<close> builds before it calls \<open>run\<close>, without \<open>--verbose\<close>.\<close>

definition initial :: "bool \<Rightarrow> filesystem \<Rightarrow> state" where
  "initial dry f = \<lparr>verbose = False, dry_run = dry, changes_made = False, fs = f, out = []\<rparr>"

text \<open>A data directory with a past-answers file and a word list that ends in a newline.\<close>

definition fs_local :: filesystem where
  "fs_local =
     [DATA_DIR \<mapsto> Dir,
      PAST_ANSWERS_FILE \<mapsto> File (lit ''apple\<newline>beach''),
      WORDS_FILE \<mapsto> File (lit ''apple\<newline>beach\<newline>'')]"





text \<open>A data directory whose word list has a line that starts with a space.\<close>

definition fs_padded :: filesystem where
  "fs_padded = [DATA_DIR \<mapsto> Dir, WORDS_FILE \<mapsto> File (lit ''a\<newline> z'')]"





section \<open>Lemmas about text\<close>







lemma strip_Nil: "strip [] = []"
  by (simp add: strip_def)







lemma lit_Nil [simp]: "lit [] = []"
  by (simp add: lit_def)

lemma lit_eq [simp]: "lit a = lit b \<longleftrightarrow> a = b"
proof -
  have "inj (of_char :: char \<Rightarrow> nat)" by (rule injI) simp
  then show ?thesis unfolding lit_def by (simp add: inj_map_eq_map)
qed

lemma length_lit [simp]: "length (lit s) = length s"
  by (simp add: lit_def)

lemma lit_eq_Nil [simp]: "lit a = [] \<longleftrightarrow> a = []" "[] = lit a \<longleftrightarrow> a = []"
  by (auto simp: lit_def)




lemma lower_tabled: "list_all tabled s \<Longrightarrow> lower s = concat (map lower_char s)"
  by (simp add: lower_def)







lemma lower_no_NL: "list_all tabled s \<Longrightarrow> NL \<notin> set s \<Longrightarrow> NL \<notin> set (lower s)"
proof -
  assume t: "list_all tabled s" and n: "NL \<notin> set s"
  from n have "NL \<notin> set (concat (map lower_char s))"
    by (induction s) (auto simp: lower_char_def isupper_def NL_def split: if_splits)
  then show ?thesis using t by (simp add: lower_tabled)
qed

lemma isalpha_char_not_NL: "isalpha_char c \<Longrightarrow> c \<noteq> NL"
  by (auto simp: isalpha_char_def tabled_def NL_def)

section \<open>What each method does to the state\<close>

lemma same_fields_refl [simp]: "same_fields st st"
  by (simp add: same_fields_def)

lemma same_fields_trans: "same_fields a b \<Longrightarrow> same_fields b c \<Longrightarrow> same_fields a c"
  by (simp add: same_fields_def)

lemma same_fields_emit [simp]: "same_fields st (emit e st')= same_fields st st'"
  by (simp add: same_fields_def emit_def)

lemma same_fields_log [simp]: "same_fields st (log l st') = same_fields st st'"
  by (simp add: log_def)

lemma same_fields_verbose_log [simp]: "same_fields st (verbose_log st') = same_fields st st'"
  by (simp add: verbose_log_def)

lemma fields_emit [simp]:
  "fs (emit e st) = fs st" "dry_run (emit e st) = dry_run st"
  "verbose (emit e st) = verbose st" "changes_made (emit e st) = changes_made st"
  by (simp_all add: emit_def)

lemma fields_log [simp]:
  "fs (log l st) = fs st" "dry_run (log l st) = dry_run st"
  "verbose (log l st) = verbose st" "changes_made (log l st) = changes_made st"
  by (simp_all add: log_def)

lemma fields_verbose_log [simp]:
  "fs (verbose_log st) = fs st" "dry_run (verbose_log st) = dry_run st"
  "verbose (verbose_log st) = verbose st" "changes_made (verbose_log st) = changes_made st"
  by (simp_all add: verbose_log_def)

lemma attempts3: "[0..<3] = [0, Suc 0, 2]"
  by (simp add: upt_rec numeral_3_eq_3 numeral_2_eq_2)

lemma fetch_url_fst: "fst (fetch_url net url st) = fetch_result net url"
  by (simp add: fetch_url_def attempts3 fetch_result_def Let_def split: outcome.splits)

lemma fetch_url_same: "same_fields st (snd (fetch_url net url st))"
  by (simp add: fetch_url_def attempts3 Let_def split: outcome.splits)

lemma fetch_url_pair:
  "fetch_url net url st = (fetch_result net url, snd (fetch_url net url st))"
  by (metis fetch_url_fst prod.collapse)

lemma fetch_url_never_None: "fetch_result net url \<noteq> Inr None"
  by (simp add: fetch_result_def split: outcome.splits)

lemma json_endpoint_fst: "fst (json_endpoint net st) = remote_answers net"
  unfolding json_endpoint_def remote_answers_def
  apply (subst fetch_url_pair)
  apply (simp split: sum.splits option.splits bool.splits prod.splits)
  done

lemma json_endpoint_same: "same_fields st (snd (json_endpoint net st))"
  unfolding json_endpoint_def
  using fetch_url_same [of st net WORDLE_ANSWERS_URL]
  by (auto split: sum.splits option.splits bool.splits prod.splits)

lemma same_fields_left [simp]:
  "same_fields (emit e st) st' = same_fields st st'"
  "same_fields (log l st) st' = same_fields st st'"
  "same_fields (verbose_log st) st' = same_fields st st'"
  by (simp_all add: same_fields_def)

lemma json_endpoint_pair:
  "json_endpoint net st = (remote_answers net, snd (json_endpoint net st))"
  by (metis json_endpoint_fst prod.collapse)

lemma fetch_past_fst:
  "fst (fetch_past_wordle_answers net st) = past_of net (fs st)"
proof -
  have "fs (snd (json_endpoint net (log INFO st))) = fs st"
    using json_endpoint_same [of "log INFO st" net] by (simp add: same_fields_def)
  then show ?thesis
    unfolding fetch_past_wordle_answers_def past_of_def words_at_def PAST_ANSWERS_FILE_def
    by (subst json_endpoint_pair) (simp add: Let_def known_recent_def split: sum.splits)
qed

lemma fetch_past_same: "same_fields st (snd (fetch_past_wordle_answers net st))"
proof -
  have "same_fields st (snd (json_endpoint net (log INFO st)))"
    using json_endpoint_same [of "log INFO st" net] by simp
  then show ?thesis
    unfolding fetch_past_wordle_answers_def
    by (subst json_endpoint_pair) (simp add: Let_def split: sum.splits)
qed

lemma add_scrabble_fst:
  "fst (add_scrabble net ws st) = ws \<union> remote_scrabble net"
  unfolding add_scrabble_def remote_scrabble_def
  by (subst fetch_url_pair) (simp add: Let_def split: sum.splits option.splits)

lemma add_scrabble_same: "same_fields st (snd (add_scrabble net ws st))"
  unfolding add_scrabble_def
  using fetch_url_same [of st net FALLBACK_SCRABBLE_URL]
  by (subst fetch_url_pair) (simp add: Let_def split: sum.splits option.splits)

lemma add_scrabble_pair:
  "add_scrabble net ws st = (ws \<union> remote_scrabble net, snd (add_scrabble net ws st))"
  by (metis add_scrabble_fst prod.collapse)

lemma fetch_comprehensive_fst:
  "fst (fetch_comprehensive_wordlist net st) = all_of net (fs st)"
  unfolding fetch_comprehensive_wordlist_def all_of_def words_at_def WORDS_FILE_def
  by (subst (1 2) add_scrabble_pair) (simp add: Let_def split: sum.splits)

lemma fetch_comprehensive_same:
  "same_fields st (snd (fetch_comprehensive_wordlist net st))"
proof -
  have "same_fields st (snd (add_scrabble net ws (log INFO st)))" for ws
    using add_scrabble_same [of "log INFO st" net ws] by simp
  moreover have "same_fields st (snd (add_scrabble net ws (log INFO (log INFO st))))" for ws
    using add_scrabble_same [of "log INFO (log INFO st)" net ws] by simp
  ultimately show ?thesis
    unfolding fetch_comprehensive_wordlist_def
    by (subst (1 2) add_scrabble_pair) (simp add: Let_def split: sum.splits)
qed

lemma determine_common_fst:
  "fst (determine_common_words all_words past st) = common_of all_words past (fs st)"
  unfolding determine_common_words_def common_of_def words_at_def COMMON_WORDS_FILE_def
  by (simp add: Let_def split: sum.splits)

lemma determine_common_same:
  "same_fields st (snd (determine_common_words all_words past st))"
  unfolding determine_common_words_def
  by (simp add: Let_def split: sum.splits)

section \<open>What each method does to the file system\<close>

lemma os_mkdir_Inr: "os_mkdir f p = Inr f' \<Longrightarrow> f' = f(p \<mapsto> Dir)"
  by (auto simp: os_mkdir_def split: option.splits node.splits if_splits)

lemma write_text_Inr: "write_text f p txt = Inr f' \<Longrightarrow> f' = f(p \<mapsto> File txt)"
  by (auto simp: write_text_def split: option.splits node.splits if_splits)

lemma take_butlast_prefix:
  assumes "take (length q) (butlast p) = q"
  shows "take (length q) p = q"
proof -
  have "length (take (length q) (butlast p)) = length q" using assms by simp
  then have "length q \<le> length p - 1" by simp
  then have "length q < length p \<or> q = []" by (cases p) auto
  then show ?thesis using assms by (auto simp: take_butlast)
qed

lemma mkdir_other:
  "mkdir f p = Inr f' \<Longrightarrow> take (length q) p \<noteq> q \<Longrightarrow> f' q = f q"
proof (induction f p arbitrary: f' rule: mkdir.induct)
  case (1 f p)
  have qp: "q \<noteq> p" using "1.prems"(2) by auto
  have qb: "take (length q) (butlast p) \<noteq> q"
    using "1.prems"(2) take_butlast_prefix by blast
  show ?case
  proof (cases "os_mkdir f p")
    case (Inr g)
    then have "f' = g" using "1.prems"(1) by (subst (asm) mkdir.simps) simp
    then show ?thesis using os_mkdir_Inr [OF Inr] qp by simp
  next
    case (Inl e)
    show ?thesis
    proof (cases "e = FileNotFoundError")
      case False
      then have "f' = f" using "1.prems"(1) Inl
        by (subst (asm) mkdir.simps) (simp split: if_splits)
      then show ?thesis by simp
    next
      case True
      show ?thesis
      proof (cases "p = []")
        case True
        then show ?thesis using "1.prems"(1) Inl \<open>e = FileNotFoundError\<close>
          by (subst (asm) mkdir.simps) simp
      next
        case False
        obtain g where g: "mkdir f (butlast p) = Inr g"
          using "1.prems"(1) Inl True False
          by (subst (asm) mkdir.simps) (auto split: sum.splits)
        have gq: "g q = f q"
          using "1.IH" [OF Inl True False g qb] .
        have "f' = g \<or> os_mkdir g p = Inr f'"
          using "1.prems"(1) Inl True False g
          by (subst (asm) mkdir.simps) (auto split: sum.splits if_splits)
        then show ?thesis
        proof
          assume "f' = g" then show ?thesis using gq by simp
        next
          assume "os_mkdir g p = Inr f'"
          then show ?thesis using os_mkdir_Inr qp gq by fastforce
        qed
      qed
    qed
  qed
qed

lemma data_files_length: "q \<in> set data_files \<Longrightarrow> length q = 2"
  by (auto simp: data_files_def PAST_ANSWERS_FILE_def COMMON_WORDS_FILE_def WORDS_FILE_def
      DATA_DIR_def)

lemma data_files_no_prefix:
  assumes "q \<in> set data_files"
  shows "take (length q) BACKUP_DIR \<noteq> q" "take (length q) WWWROOT_DATA_DIR \<noteq> q"
    "take (length q) DATA_DIR \<noteq> q"
  using assms
  by (auto simp: data_files_def PAST_ANSWERS_FILE_def COMMON_WORDS_FILE_def WORDS_FILE_def
      DATA_DIR_def BACKUP_DIR_def WWWROOT_DATA_DIR_def)


lemma sync_each_frame:
  "sync_each names st = (r, st') \<Longrightarrow>
   (\<forall>q. length q \<noteq> 3 \<longrightarrow> fs st' q = fs st q) \<and> dry_run st' = dry_run st
   \<and> verbose st' = verbose st \<and> changes_made st' = changes_made st"
proof (induction names arbitrary: st)
  case Nil
  then show ?case by simp
next
  case (Cons n names)
  show ?case
  proof (cases "path_exists (fs st) (DATA_DIR @ [n])")
    case False
    then show ?thesis using Cons by (simp add: Let_def)
  next
    case True
    show ?thesis
    proof (cases "read_text (fs st) (DATA_DIR @ [n])")
      case (Inl e)
      then show ?thesis using Cons.prems True by (simp add: Let_def)
    next
      case (Inr t)
      note rd = this
      show ?thesis
      proof (cases "write_text (fs st) (WWWROOT_DATA_DIR @ [n]) t")
        case (Inl e)
        then show ?thesis using Cons.prems True rd by (simp add: Let_def)
      next
        case (Inr g)
        note w = this
        have g: "g = (fs st)(WWWROOT_DATA_DIR @ [n] \<mapsto> File t)"
          using write_text_Inr [OF w] .
        have "sync_each names (verbose_log (st\<lparr>fs := g\<rparr>)) = (r, st')"
          using Cons.prems True rd w by (simp add: Let_def)
        from Cons.IH [OF this] show ?thesis
          by (auto simp: g WWWROOT_DATA_DIR_def)
      qed
    qed
  qed
qed


lemma sync_to_wwwroot_frame:
  assumes "sync_to_wwwroot st = (r, st')"
  shows "\<forall>q\<in>set data_files. fs st' q = fs st q"
    and "dry_run st' = dry_run st" and "verbose st' = verbose st"
    and "changes_made st' = changes_made st"
    and "dry_run st \<Longrightarrow> fs st' = fs st \<and> r = Inr ()"
proof -
  have all: "(\<forall>q\<in>set data_files. fs st' q = fs st q) \<and> dry_run st' = dry_run st
      \<and> verbose st' = verbose st \<and> changes_made st' = changes_made st
      \<and> (dry_run st \<longrightarrow> fs st' = fs st \<and> r = Inr ())"
  proof (cases "dry_run st")
    case True
    then show ?thesis using assms by (auto simp: sync_to_wwwroot_def)
  next
    case False
    show ?thesis
    proof (cases "mkdir (fs st) WWWROOT_DATA_DIR")
      case (Inl e)
      then show ?thesis using assms False by (auto simp: sync_to_wwwroot_def)
    next
      case (Inr g)
      then have "sync_each FILENAMES (st\<lparr>fs := g\<rparr>) = (r, st')"
        using assms False by (simp add: sync_to_wwwroot_def)
      from sync_each_frame [OF this]
      have "(\<forall>q. length q \<noteq> 3 \<longrightarrow> fs st' q = g q)" "dry_run st' = dry_run st"
        "verbose st' = verbose st" "changes_made st' = changes_made st" by simp_all
      moreover have "g q = fs st q" if "q \<in> set data_files" for q
        by (rule mkdir_other [OF Inr data_files_no_prefix(2) [OF that]])
      moreover have "length q \<noteq> 3" if "q \<in> set data_files" for q
        using data_files_length [OF that] by simp
      ultimately show ?thesis using False by simp
    qed
  qed
  show "\<forall>q\<in>set data_files. fs st' q = fs st q"
    and "dry_run st' = dry_run st" and "verbose st' = verbose st"
    and "changes_made st' = changes_made st"
    and "dry_run st \<Longrightarrow> fs st' = fs st \<and> r = Inr ()"
    using all by simp_all
qed


section \<open>Lemmas about the words fetched\<close>






lemma isalpha_no_NL: "isalpha s \<Longrightarrow> NL \<notin> set s"
  by (auto simp: isalpha_def list_all_iff dest: isalpha_char_not_NL)


lemma finite_update_solutions:
  "finite acc \<Longrightarrow> finite (snd (update_solutions acc entries))"
  by (induction entries arbitrary: acc) (auto split: sum.splits)

lemma finite_remote_answers: "finite (remote_answers net)"
  unfolding remote_answers_def
  by (auto simp: finite_update_solutions split: sum.splits option.splits bool.splits)



section \<open>The claims\<close>

text \<open>
  Claim C3. For every URL, network and state, \<open>fetch_url\<close> makes at most three
  requests. A first attempt that succeeds returns its response with no further request.
  After the first failed attempt it sleeps 1 second and after the second 2 seconds
  (\<open>2 ** attempt\<close>), each time followed by one more request; a response on the
  second or third attempt is returned at once; after the third failed attempt it
  re-raises the failure, without sleeping. The events are listed in full: in verbose
  mode a debug line precedes each request, and a warning line follows each failure.
\<close>

theorem fetch_url_retries:
  "fetch_url net url st =
     (let attempt = (if verbose st then [Log DEBUG] else []) @ [Request url];
          failure = [Log WARNING]
      in case net url 0 of
           Ok r \<Rightarrow> (Inr (Some r), add_out attempt st)
         | Failed \<Rightarrow>
             (case net url 1 of
                Ok r \<Rightarrow> (Inr (Some r), add_out (attempt @ failure @ [Sleep 1] @ attempt) st)
              | Failed \<Rightarrow>
                  (case net url 2 of
                     Ok r \<Rightarrow>
                       (Inr (Some r),
                        add_out (attempt @ failure @ [Sleep 1] @ attempt @ failure @ [Sleep 2]
                                 @ attempt) st)
                   | Failed \<Rightarrow>
                       (Inl RequestException,
                        add_out (attempt @ failure @ [Sleep 1] @ attempt @ failure @ [Sleep 2]
                                 @ attempt @ failure) st))))"
  by (simp add: fetch_url_def attempts3 Let_def add_out_def emit_def log_def verbose_log_def
      split: outcome.splits)

lemma remote_scrabble_failed:
  "net FALLBACK_SCRABBLE_URL 0 = Failed \<Longrightarrow> net FALLBACK_SCRABBLE_URL 1 = Failed \<Longrightarrow>
   net FALLBACK_SCRABBLE_URL 2 = Failed \<Longrightarrow> remote_scrabble net = {}"
  by (simp add: remote_scrabble_def fetch_result_def)

lemma words_at_simps:
  "p \<noteq> [] \<Longrightarrow> f p = None \<Longrightarrow> words_at f p = Inr None"
  "p \<noteq> [] \<Longrightarrow> f p = Some (File t) \<Longrightarrow> words_at f p = Inr (Some (read_words t))"
  "p \<noteq> [] \<Longrightarrow> f p = Some Dir \<Longrightarrow> words_at f p = Inl IsADirectoryError"
  by (simp_all add: words_at_def path_exists_def lookup_def read_text_def)

lemma data_file_not_Nil [simp]:
  "PAST_ANSWERS_FILE \<noteq> []" "COMMON_WORDS_FILE \<noteq> []" "WORDS_FILE \<noteq> []"
  by (simp_all add: PAST_ANSWERS_FILE_def COMMON_WORDS_FILE_def WORDS_FILE_def)

text \<open>
  Claim C7. When all three attempts on the remote dictionary fail,
  \<open>fetch_comprehensive_wordlist\<close> raises nothing and returns exactly the seed: the
  words read from the local words file when that file is there, the empty set when it
  is not.
\<close>

theorem comprehensive_fetch_failure:
  assumes "net FALLBACK_SCRABBLE_URL 0 = Failed"
    and "net FALLBACK_SCRABBLE_URL 1 = Failed"
    and "net FALLBACK_SCRABBLE_URL 2 = Failed"
  shows "(fs st WORDS_FILE = Some (File t) \<longrightarrow>
            fst (fetch_comprehensive_wordlist net st) = Inr (read_words t))
       \<and> (fs st WORDS_FILE = None \<longrightarrow>
            fst (fetch_comprehensive_wordlist net st) = Inr {})"
proof -
  have "remote_scrabble net = {}" using assms by (rule remote_scrabble_failed)
  then show ?thesis
    by (simp add: fetch_comprehensive_fst all_of_def words_at_simps)
qed



lemma words_at_None: "p \<noteq> [] \<Longrightarrow> words_at f p = Inr None \<Longrightarrow> f p = None"
  by (auto simp: words_at_def path_exists_def lookup_def split: if_splits sum.splits)





lemma fs_local_simps:
  "fs_local PAST_ANSWERS_FILE = Some (File (lit ''apple\<newline>beach''))"
  "fs_local WORDS_FILE = Some (File (lit ''apple\<newline>beach\<newline>''))"
  "fs_local COMMON_WORDS_FILE = None"
  "fs_local DATA_DIR = Some Dir"
  by (simp_all add: fs_local_def PAST_ANSWERS_FILE_def WORDS_FILE_def COMMON_WORDS_FILE_def
      DATA_DIR_def)

lemma fs_initial [simp]:
  "fs (initial dry f) = f" "dry_run (initial dry f) = dry" "verbose (initial dry f) = False"
  "changes_made (initial dry f) = False" "out (initial dry f) = []"
  by (simp_all add: initial_def)


lemma read_words_apple_beach_nl:
  "read_words (lit ''apple\<newline>beach\<newline>'') = {lit ''apple'', lit ''beach''}"
  by code_simp

text \<open>
  The network on which every attempt fails, with and without a local words file.
\<close>

theorem comprehensive_fetch_failure_witness:
  "offline FALLBACK_SCRABBLE_URL 0 = Failed \<and> offline FALLBACK_SCRABBLE_URL 1 = Failed
   \<and> offline FALLBACK_SCRABBLE_URL 2 = Failed
   \<and> fs (initial False fs_local) WORDS_FILE = Some (File (lit ''apple\<newline>beach\<newline>''))
   \<and> fst (fetch_comprehensive_wordlist offline (initial False fs_local))
       = Inr {lit ''apple'', lit ''beach''}
   \<and> fs (initial False Map.empty) WORDS_FILE = None
   \<and> fst (fetch_comprehensive_wordlist offline (initial False Map.empty)) = Inr {}"
  using comprehensive_fetch_failure
          [of offline "initial False fs_local" "(lit ''apple\<newline>beach\<newline>'')"]
        comprehensive_fetch_failure [of offline "initial False Map.empty"]
  by (simp add: offline_def fs_local_simps read_words_apple_beach_nl)



lemma write_word_file_changed:
  assumes "p \<noteq> []" "fs st p = Some (File t)" "strip t \<noteq> file_content words"
  shows "changes_made (snd (write_word_file p words d st))"
  using assms
  by (auto simp: write_word_file_def path_exists_def lookup_def read_text_def Let_def
      split: sum.splits)




















section \<open>The run as a whole\<close>

lemma run_body_split:
  "run_body net stamp st =
     (case backup_files stamp st of
        (Inl e, st1) \<Rightarrow> (Inl e, st1)
      | (Inr _, st1) \<Rightarrow>
          (case resolve net st1 of
             (Inl e, st4) \<Rightarrow> (Inl e, st4)
           | (Inr (past_answers, all_words, common_words), st4) \<Rightarrow>
               (case mkdir (fs st4) DATA_DIR of
                  Inl e \<Rightarrow> (Inl e, st4)
                | Inr f \<Rightarrow> write_all past_answers all_words common_words (st4\<lparr>fs := f\<rparr>))))"
  by (simp add: run_body_def resolve_def write_all_def PAST_ANSWERS_FILE_def
      COMMON_WORDS_FILE_def WORDS_FILE_def split: prod.splits sum.splits)

lemma same_fieldsD:
  "same_fields st st' \<Longrightarrow>
   fs st' = fs st \<and> dry_run st' = dry_run st \<and> verbose st' = verbose st
   \<and> changes_made st' = changes_made st"
  by (simp add: same_fields_def)

lemma fetch_past_pair:
  "fetch_past_wordle_answers net st
     = (past_of net (fs st), snd (fetch_past_wordle_answers net st))"
  by (metis fetch_past_fst prod.collapse)

lemma fetch_comprehensive_pair:
  "fetch_comprehensive_wordlist net st
     = (all_of net (fs st), snd (fetch_comprehensive_wordlist net st))"
  by (metis fetch_comprehensive_fst prod.collapse)

lemma determine_common_pair:
  "determine_common_words aw pa st
     = (common_of aw pa (fs st), snd (determine_common_words aw pa st))"
  by (metis determine_common_fst prod.collapse)

lemma snd_fields [simp]:
  "fs (snd (fetch_past_wordle_answers net st)) = fs st"
  "dry_run (snd (fetch_past_wordle_answers net st)) = dry_run st"
  "verbose (snd (fetch_past_wordle_answers net st)) = verbose st"
  "changes_made (snd (fetch_past_wordle_answers net st)) = changes_made st"
  "fs (snd (fetch_comprehensive_wordlist net st)) = fs st"
  "dry_run (snd (fetch_comprehensive_wordlist net st)) = dry_run st"
  "verbose (snd (fetch_comprehensive_wordlist net st)) = verbose st"
  "changes_made (snd (fetch_comprehensive_wordlist net st)) = changes_made st"
  "fs (snd (determine_common_words aw pa st)) = fs st"
  "dry_run (snd (determine_common_words aw pa st)) = dry_run st"
  "verbose (snd (determine_common_words aw pa st)) = verbose st"
  "changes_made (snd (determine_common_words aw pa st)) = changes_made st"
  using fetch_past_same [of st net] fetch_comprehensive_same [of st net]
    determine_common_same [of st aw pa]
  by (simp_all add: same_fields_def)

lemma resolve_eq:
  "resolve net st =
     (case past_of net (fs st) of
        Inl e \<Rightarrow> (Inl e, snd (fetch_past_wordle_answers net st))
      | Inr pa \<Rightarrow>
          (let s2 = snd (fetch_past_wordle_answers net st)
           in case all_of net (fs st) of
                Inl e \<Rightarrow> (Inl e, snd (fetch_comprehensive_wordlist net s2))
              | Inr aw \<Rightarrow>
                  (let s3 = snd (fetch_comprehensive_wordlist net s2)
                   in case common_of aw pa (fs st) of
                        Inl e \<Rightarrow> (Inl e, snd (determine_common_words aw pa s3))
                      | Inr cw \<Rightarrow> (Inr (pa, aw, cw), snd (determine_common_words aw pa s3)))))"
  unfolding resolve_def
  apply (subst fetch_past_pair)
  apply (simp split: sum.splits)
  apply (subst fetch_comprehensive_pair)
  apply (simp split: sum.splits)
  apply (subst determine_common_pair)
  apply (simp split: sum.splits)
  done

lemma resolve_fst: "fst (resolve net st) = resolved net (fs st)"
  by (simp add: resolve_eq resolved_def Let_def split: sum.splits)

lemma resolve_fields [simp]:
  "fs (snd (resolve net st)) = fs st"
  "dry_run (snd (resolve net st)) = dry_run st"
  "verbose (snd (resolve net st)) = verbose st"
  "changes_made (snd (resolve net st)) = changes_made st"
  by (simp_all add: resolve_eq Let_def split: sum.splits)

lemma resolve_pair: "resolve net st = (resolved net (fs st), snd (resolve net st))"
  by (metis resolve_fst prod.collapse)

lemma write_word_file_eq:
  "write_word_file p ws d st =
     (case current_text (fs st) p of
        Inl e \<Rightarrow> (Inl e, st)
      | Inr t \<Rightarrow>
          if file_content ws = strip t then (Inr (), log INFO st)
          else if dry_run st
            then (Inr (), log INFO (log INFO (log INFO (st\<lparr>changes_made := True\<rparr>))))
            else (case write_text (fs st) p (file_content ws) of
                    Inl e \<Rightarrow> (Inl e, st\<lparr>changes_made := True\<rparr>)
                  | Inr f \<Rightarrow> (Inr (), log INFO (st\<lparr>changes_made := True, fs := f\<rparr>))))"
  by (simp add: write_word_file_def current_text_def Let_def split: sum.splits)

lemma write_word_file_effect:
  assumes "write_word_file p ws d st = (r, st')"
  shows "dry_run st' = dry_run st \<and> verbose st' = verbose st
       \<and> (\<forall>q. q \<noteq> p \<longrightarrow> fs st' q = fs st q)
       \<and> (dry_run st \<longrightarrow> fs st' = fs st)
       \<and> (nothing_to_write (fs st) p ws \<longrightarrow> fs st' = fs st)
       \<and> (r = Inr () \<and> \<not> dry_run st \<longrightarrow> settled (fs st) (fs st') p ws)"
proof (cases "current_text (fs st) p")
  case (Inl e)
  then have "r = Inl e" "st' = st" using assms by (simp_all add: write_word_file_eq)
  then show ?thesis by simp
next
  case (Inr t)
  note ct = this
  show ?thesis
  proof (cases "file_content ws = strip t")
    case True
    then have "r = Inr ()" "st' = log INFO st"
      using assms ct by (simp_all add: write_word_file_eq)
    then show ?thesis using ct True by (simp add: settled_def)
  next
    case False
    note ne = this
    then have nn: "\<not> nothing_to_write (fs st) p ws"
      using ct by (auto simp: nothing_to_write_def)
    show ?thesis
    proof (cases "dry_run st")
      case True
      then have "st' = log INFO (log INFO (log INFO (st\<lparr>changes_made := True\<rparr>)))"
        using assms ct ne by (simp add: write_word_file_eq)
      then show ?thesis using True nn by simp
    next
      case False
      note nd = this
      show ?thesis
      proof (cases "write_text (fs st) p (file_content ws)")
        case (Inl e)
        then have "r = Inl e" "st' = st\<lparr>changes_made := True\<rparr>"
          using assms ct ne nd by (simp_all add: write_word_file_eq)
        then show ?thesis using nn by simp
      next
        case (Inr f)
        then have f: "f = (fs st)(p \<mapsto> File (file_content ws))" by (rule write_text_Inr)
        have "st' = log INFO (st\<lparr>changes_made := True, fs := f\<rparr>)"
          using assms ct ne nd Inr by (simp add: write_word_file_eq)
        then have "dry_run st' = dry_run st" "verbose st' = verbose st" "fs st' = f"
          by simp_all
        then show ?thesis using nn nd ct ne f by (simp add: settled_def)
      qed
    qed
  qed
qed

lemma current_text_cong: "p \<noteq> [] \<Longrightarrow> f p = g p \<Longrightarrow> current_text f p = current_text g p"
  by (simp add: current_text_def path_exists_def read_text_def lookup_def)

lemma nothing_to_write_cong:
  "p \<noteq> [] \<Longrightarrow> f p = g p \<Longrightarrow> nothing_to_write f p ws = nothing_to_write g p ws"
  by (simp add: nothing_to_write_def current_text_cong [of p f g])



lemma data_files_mem [simp]:
  "PAST_ANSWERS_FILE \<in> set data_files" "COMMON_WORDS_FILE \<in> set data_files"
  "WORDS_FILE \<in> set data_files"
  by (simp_all add: data_files_def)

lemma write_all_chain:
  assumes "write_all pa aw cw st = (r, st')"
  obtains
    (fail_past) e where
      "write_word_file PAST_ANSWERS_FILE pa ''past Wordle answers'' st = (Inl e, st')"
      "r = Inl e"
  | (fail_common) s5 e where
      "write_word_file PAST_ANSWERS_FILE pa ''past Wordle answers'' st = (Inr (), s5)"
      "write_word_file COMMON_WORDS_FILE cw ''common words'' s5 = (Inl e, st')"
      "r = Inl e"
  | (fail_words) s5 s6 e where
      "write_word_file PAST_ANSWERS_FILE pa ''past Wordle answers'' st = (Inr (), s5)"
      "write_word_file COMMON_WORDS_FILE cw ''common words'' s5 = (Inr (), s6)"
      "write_word_file WORDS_FILE aw ''total words'' s6 = (Inl e, st')"
      "r = Inl e"
  | (fail_sync) s5 s6 s7 e where
      "write_word_file PAST_ANSWERS_FILE pa ''past Wordle answers'' st = (Inr (), s5)"
      "write_word_file COMMON_WORDS_FILE cw ''common words'' s5 = (Inr (), s6)"
      "write_word_file WORDS_FILE aw ''total words'' s6 = (Inr (), s7)"
      "sync_to_wwwroot s7 = (Inl e, st')"
      "r = Inl e"
  | (completed) s5 s6 s7 s8 where
      "write_word_file PAST_ANSWERS_FILE pa ''past Wordle answers'' st = (Inr (), s5)"
      "write_word_file COMMON_WORDS_FILE cw ''common words'' s5 = (Inr (), s6)"
      "write_word_file WORDS_FILE aw ''total words'' s6 = (Inr (), s7)"
      "sync_to_wwwroot s7 = (Inr (), s8)"
      "r = Inr 0" "fs st' = fs s8" "dry_run st' = dry_run s8"
      "changes_made st' = changes_made s8"
proof -
  obtain r5 s5 where w5:
    "write_word_file PAST_ANSWERS_FILE pa ''past Wordle answers'' st = (r5, s5)" by fastforce
  show thesis
  proof (cases r5)
    case (Inl e)
    then show thesis using assms w5 fail_past by (simp add: write_all_def)
  next
    case (Inr u5)
    note r5 = this
    obtain r6 s6 where w6:
      "write_word_file COMMON_WORDS_FILE cw ''common words'' s5 = (r6, s6)" by fastforce
    show thesis
    proof (cases r6)
      case (Inl e)
      then show thesis using assms w5 r5 w6 fail_common by (simp add: write_all_def)
    next
      case (Inr u6)
      note r6 = this
      obtain r7 s7 where w7:
        "write_word_file WORDS_FILE aw ''total words'' s6 = (r7, s7)" by fastforce
      show thesis
      proof (cases r7)
        case (Inl e)
        then show thesis using assms w5 r5 w6 r6 w7 fail_words by (simp add: write_all_def)
      next
        case (Inr u7)
        note r7 = this
        obtain r8 s8 where w8: "sync_to_wwwroot s7 = (r8, s8)" by fastforce
        show thesis
        proof (cases r8)
          case (Inl e)
          then show thesis
            using assms w5 r5 w6 r6 w7 r7 w8 fail_sync by (simp add: write_all_def)
        next
          case (Inr u8)
          have "r = Inr 0 \<and> fs st' = fs s8 \<and> dry_run st' = dry_run s8
                \<and> changes_made st' = changes_made s8"
            using assms w5 r5 w6 r6 w7 r7 w8 Inr
            by (auto simp: write_all_def Let_def split: if_splits)
          then show thesis
            using w5 r5 w6 r6 w7 r7 w8 Inr completed by simp
        qed
      qed
    qed
  qed
qed

lemma write_all_dry:
  assumes "write_all pa aw cw st = (r, st')" "dry_run st"
  shows "fs st' = fs st"
  using assms(1)
proof (cases rule: write_all_chain)
  case (fail_past e)
  from write_word_file_effect [OF fail_past(1)] assms(2) show ?thesis by simp
next
  case (fail_common s5 e)
  from write_word_file_effect [OF fail_common(1)] write_word_file_effect [OF fail_common(2)]
    assms(2)
  show ?thesis by simp
next
  case (fail_words s5 s6 e)
  from write_word_file_effect [OF fail_words(1)] write_word_file_effect [OF fail_words(2)]
    write_word_file_effect [OF fail_words(3)] assms(2)
  show ?thesis by simp
next
  case (fail_sync s5 s6 s7 e)
  from write_word_file_effect [OF fail_sync(1)] write_word_file_effect [OF fail_sync(2)]
    write_word_file_effect [OF fail_sync(3)] assms(2)
  have "fs s7 = fs st" "dry_run s7" by simp_all
  with sync_to_wwwroot_frame(5) [OF fail_sync(4)] show ?thesis by simp
next
  case (completed s5 s6 s7 s8)
  from write_word_file_effect [OF completed(1)] write_word_file_effect [OF completed(2)]
    write_word_file_effect [OF completed(3)] assms(2)
  have "fs s7 = fs st" "dry_run s7" by simp_all
  with sync_to_wwwroot_frame(5) [OF completed(4)] completed(6) show ?thesis by simp
qed


lemma write_all_nothing:
  assumes "write_all pa aw cw st = (r, st')"
    and "nothing_to_write (fs st) PAST_ANSWERS_FILE pa"
    and "nothing_to_write (fs st) COMMON_WORDS_FILE cw"
    and "nothing_to_write (fs st) WORDS_FILE aw"
  shows "\<forall>q\<in>set data_files. fs st' q = fs st q"
  using assms(1)
proof (cases rule: write_all_chain)
  case (fail_past e)
  from write_word_file_effect [OF fail_past(1)] assms(2) show ?thesis by simp
next
  case (fail_common s5 e)
  from write_word_file_effect [OF fail_common(1)] assms(2) have 5: "fs s5 = fs st" by simp
  from write_word_file_effect [OF fail_common(2)] assms(3) 5 show ?thesis by simp
next
  case (fail_words s5 s6 e)
  from write_word_file_effect [OF fail_words(1)] assms(2) have 5: "fs s5 = fs st" by simp
  from write_word_file_effect [OF fail_words(2)] assms(3) 5 have 6: "fs s6 = fs st" by simp
  from write_word_file_effect [OF fail_words(3)] assms(4) 6 show ?thesis by simp
next
  case (fail_sync s5 s6 s7 e)
  from write_word_file_effect [OF fail_sync(1)] assms(2) have 5: "fs s5 = fs st" by simp
  from write_word_file_effect [OF fail_sync(2)] assms(3) 5 have 6: "fs s6 = fs st" by simp
  from write_word_file_effect [OF fail_sync(3)] assms(4) 6 have 7: "fs s7 = fs st" by simp
  from sync_to_wwwroot_frame(1) [OF fail_sync(4)] 7 show ?thesis by simp
next
  case (completed s5 s6 s7 s8)
  from write_word_file_effect [OF completed(1)] assms(2) have 5: "fs s5 = fs st" by simp
  from write_word_file_effect [OF completed(2)] assms(3) 5 have 6: "fs s6 = fs st" by simp
  from write_word_file_effect [OF completed(3)] assms(4) 6 have 7: "fs s7 = fs st" by simp
  from sync_to_wwwroot_frame(1) [OF completed(4)] 7 completed(6) show ?thesis by simp
qed




lemma common_of_subset: "common_of aw pa f = Inr cw \<Longrightarrow> cw \<subseteq> aw"
  by (auto simp: common_of_def split: sum.splits option.splits)

lemma resolved_subset: "resolved net f = Inr (pa, aw, cw) \<Longrightarrow> cw \<subseteq> aw"
  by (auto simp: resolved_def split: sum.splits dest: common_of_subset)

lemma settled_holds:
  assumes "p \<noteq> []" "settled f f' p ws"
  shows "holds_words f' p ws"
proof -
  obtain t where t: "current_text f p = Inr t"
    "f' p = (if file_content ws = strip t then f p else Some (File (file_content ws)))"
    using assms(2) by (auto simp: settled_def)
  show ?thesis
  proof (cases "file_content ws = strip t")
    case False
    then show ?thesis using t assms(1) by (simp add: holds_words_def lookup_def)
  next
    case True
    then show ?thesis
      using t assms(1)
      by (cases "f p")
         (auto simp: holds_words_def lookup_def current_text_def path_exists_def read_text_def
           strip_Nil split: node.splits if_splits)
  qed
qed




subsection \<open>Concrete runs\<close>


lemma mkdir_new:
  "lookup f (butlast p) = Some Dir \<Longrightarrow> lookup f p = None \<Longrightarrow> mkdir f p = Inr (f(p \<mapsto> Dir))"
  by (subst mkdir.simps) (simp add: os_mkdir_def path_exists_def)






lemmas fs_ops = path_exists_def lookup_def read_text_def write_text_def is_dir_def
  current_text_def words_at_def

lemmas paths = DATA_DIR_def BACKUP_DIR_def WWWROOT_DATA_DIR_def PAST_ANSWERS_FILE_def
  COMMON_WORDS_FILE_def WORDS_FILE_def FILENAMES_def

lemma run_body_unfold:
  "run_body net stamp st =
     (let b = backup_files stamp st
      in case fst b of
           Inl e \<Rightarrow> (Inl e, snd b)
         | Inr u \<Rightarrow>
             (let s4 = snd (resolve net (snd b))
              in case resolved net (fs (snd b)) of
                   Inl e \<Rightarrow> (Inl e, s4)
                 | Inr (pa, aw, cw) \<Rightarrow>
                     (case mkdir (fs (snd b)) DATA_DIR of
                        Inl e \<Rightarrow> (Inl e, s4)
                      | Inr f \<Rightarrow> write_all pa aw cw (s4\<lparr>fs := f\<rparr>))))"
proof -
  obtain a b where bf: "backup_files stamp st = (a, b)" by fastforce
  define s4 where "s4 = snd (resolve net b)"
  have rs: "resolve net b = (resolved net (fs b), s4)"
    unfolding s4_def by (rule resolve_pair)
  have fs4: "fs s4 = fs b" by (simp add: s4_def)
  show ?thesis
    unfolding run_body_split Let_def bf fst_conv snd_conv s4_def [symmetric]
    by (simp add: rs fs4 split: sum.splits prod.splits)
qed







text \<open>
  Claim C1. \<open>run\<close> calls \<open>DATA_DIR.mkdir\<close> without looking at \<open>dry_run\<close>:
  started in dry-run mode on an empty file system, it returns 0 and leaves a file system
  that holds the data directory and nothing else, whatever the network answers. So a dry
  run writes no file, but it does create a directory.
\<close>

theorem dry_run_creates_data_dir:
  "fs (snd (main True verb net stamp Map.empty)) = [DATA_DIR \<mapsto> Dir]
   \<and> fst (main True verb net stamp Map.empty) = 0"
  by (simp add: main_def run_def run_body_unfold backup_files_def write_all_def
      sync_to_wwwroot_def write_word_file_eq resolved_def past_of_def all_of_def common_of_def
      fs_ops paths mkdir_new Let_def)


section \<open>The writer\<close>



























section \<open>The filter on remote words\<close>














section \<open>The sets written by a run\<close>































end
